theory Spec2Isabelle
  imports Complex_Main
begin

section \<open>Data model\<close>

text \<open>
  The repository holds two variants of the handler \<^verbatim>\<open>HandleSplunkWebhook\<close>:
  \<^item> the one of \<^verbatim>\<open>src/unnamed/part_002\<close>, which reads the start time from the result
    entry \<^verbatim>\<open>_time\<close> and copies an allow-list of result entries into the labels;
  \<^item> the first one of \<^verbatim>\<open>src/pkg/alertmanager/archives/alertmanager.go.11022501\<close>, which takes
    the start time from the clock and splits the string entries of the result between
    annotations (keys starting with \<^verbatim>\<open>ann.\<close>) and labels.
  Both are embedded below. The calls to the logger only write log lines and are left out.

  A value decoded by \<^verbatim>\<open>encoding/json\<close> into \<^verbatim>\<open>interface{}\<close>: \<^verbatim>\<open>nil\<close>, \<^verbatim>\<open>bool\<close>,
  \<^verbatim>\<open>float64\<close> (every finite one is a rational), \<^verbatim>\<open>string\<close>, \<^verbatim>\<open>[]interface{}\<close> or
  \<^verbatim>\<open>map[string]interface{}\<close>.
\<close>

datatype json =
    JNull
  | JBool bool
  | JNumber rat
  | JString string
  | JArray "json list"
  | JObject "(string \<times> json) list"

text \<open>Whether the type assertion \<^verbatim>\<open>value.(string)\<close> succeeds.\<close>

fun isString :: "json \<Rightarrow> bool" where
  "isString (JString s) = True"
| "isString v = False"

text \<open>A Go \<^verbatim>\<open>error\<close> value, with its message.\<close>

datatype error = Error string

text \<open>
  \<^verbatim>\<open>map[string]interface{}\<close> is an association list: the order of the list is the order in
  which \<^verbatim>\<open>range\<close> happens to visit the map, a lookup \<^verbatim>\<open>m[key]\<close> is \<^const>\<open>map_of\<close>. The keys of
  a Go map are distinct; the theorems that need it assume \<open>distinct (map fst m)\<close>.
\<close>

type_synonym result_map = "(string \<times> json) list"

text \<open>\<^verbatim>\<open>SplunkWebhook\<close> (archive) and \<^verbatim>\<open>SplunkPayload\<close> (part 002: the same fields and \<^verbatim>\<open>Owner\<close>).\<close>

record SplunkWebhook =
  Sid :: string
  SearchName :: string
  App :: string
  ResultsLink :: string
  Result :: result_map

record SplunkPayload = SplunkWebhook +
  Owner :: string

text \<open>\<^verbatim>\<open>config.Config\<close> of \<^verbatim>\<open>src/pkg/config/config.go\<close>.\<close>

record Config =
  AlertmanagerURL :: string
  BindAddress :: string
  LogLevel :: string
  LogFormat :: string
  EndsAtDuration :: string
  AdditionalLabels :: "string list"
  AnnotationPrefix :: string

text \<open>\<^verbatim>\<open>V2Alert\<close>; \<open>'t\<close> is \<^verbatim>\<open>time.Time\<close>, and the nil pointer \<^verbatim>\<open>EndsAt\<close> is \<^const>\<open>None\<close>.\<close>

record 't V2Alert =
  Status :: string
  Labels :: "string \<rightharpoonup> string"
  Annotations :: "string \<rightharpoonup> string"
  StartsAt :: 't
  EndsAt :: "'t option"
  GeneratorURL :: string

text \<open>
  What the handler sees of the request is the result of \<^verbatim>\<open>io.ReadAll(r.Body)\<close>; what it
  writes to the \<^verbatim>\<open>http.ResponseWriter\<close> is a status code and a body.
\<close>

record Request =
  Body :: "error + string"

record Response =
  StatusCode :: nat
  ResponseBody :: string

text \<open>
  The outcome of one call of the handler: the response written to the caller, and the
  outbound POSTs it issued, each as (URL, content type, body).
\<close>

record Outcome =
  response :: Response
  posts :: "(string \<times> string \<times> string) list"

text \<open>
  The functions of the Go standard library that the handler calls, and the two things it
  observes of the world (the clock and the destination's answer), are parameters of the
  model. \<^verbatim>\<open>int64\<close> seconds and \<^verbatim>\<open>time.Duration\<close> nanoseconds are only handed from one library
  call to the next, without arithmetic on them in the handler, and are \<^typ>\<open>int\<close>.
  \<open>http_Post url contentType body\<close> is either a transport error or the destination's status
  code with what \<^verbatim>\<open>io.ReadAll(resp.Body)\<close> read of its body.
\<close>

record ('t, 'p) env =
  json_Unmarshal :: "string \<Rightarrow> error + 'p"
  json_Marshal :: "'t V2Alert list \<Rightarrow> error + string"
  strconv_ParseInt :: "string \<Rightarrow> nat \<Rightarrow> nat \<Rightarrow> error + int"
  time_Now :: 't
  time_Unix :: "int \<Rightarrow> int \<Rightarrow> 't"
  time_ParseDuration :: "string \<Rightarrow> error + int"
  time_Add :: "'t \<Rightarrow> int \<Rightarrow> 't"
  http_Post :: "string \<Rightarrow> string \<Rightarrow> string \<Rightarrow> error + (nat \<times> string)"

text \<open>Go's constant \<^verbatim>\<open>time.Hour\<close>, in nanoseconds.\<close>

definition time_Hour :: int where
  "time_Hour = 60 * (60 * (1000 * (1000 * 1000)))"

section \<open>Writing the response\<close>

definition newline :: string where
  "newline = [CHR 0x0A]"

text \<open>\<^verbatim>\<open>http.Error(w, msg, code)\<close> writes the code and the message followed by a newline.\<close>

definition http_Error :: "string \<Rightarrow> nat \<Rightarrow> Response" where
  "http_Error msg code = \<lparr>StatusCode = code, ResponseBody = msg @ newline\<rparr>"

definition StatusBadRequest :: nat where
  "StatusBadRequest = 400"

definition StatusInternalServerError :: nat where
  "StatusInternalServerError = 500"

definition StatusOK :: nat where
  "StatusOK = 200"

text \<open>A \<^verbatim>\<open>return\<close> of the handler before any outbound call.\<close>

definition reject :: "Response \<Rightarrow> Outcome" where
  "reject resp = \<lparr>response = resp, posts = []\<rparr>"

section \<open>The steps shared by both variants\<close>

text \<open>
  The end time (part 002, lines 72-86; archive, lines 92-106): none for an empty
  \<^verbatim>\<open>EndsAtDuration\<close>, the start time plus the parsed duration otherwise, and the request is
  answered with 400 when the duration does not parse.
\<close>

definition calcEndsAt :: "('t, 'p) env \<Rightarrow> Config \<Rightarrow> 't \<Rightarrow> Response + 't option" where
  "calcEndsAt e cfg startsAt =
     (if EndsAtDuration cfg \<noteq> [] then
        (case time_ParseDuration e (EndsAtDuration cfg) of
           Inl err \<Rightarrow> Inl (http_Error ''Invalid ends-at duration'' StatusBadRequest)
         | Inr duration \<Rightarrow> Inr (Some (time_Add e startsAt duration)))
      else Inr None)"

text \<open>
  Serialising and forwarding (part 002, lines 123-156; archive, lines 118-151): the alert
  is wrapped in a one-element array, marshalled and POSTed to
  \<^verbatim>\<open>cfg.AlertmanagerURL + "/api/v2/alerts"\<close>.
\<close>

definition sendAlert :: "('t, 'p) env \<Rightarrow> Config \<Rightarrow> 't V2Alert \<Rightarrow> Outcome" where
  "sendAlert e cfg v2Alert =
     (case json_Marshal e [v2Alert] of
        Inl err \<Rightarrow>
          reject (http_Error ''Failed to serialize Alertmanager payload'' StatusInternalServerError)
      | Inr payloadBytes \<Rightarrow>
          (let url = AlertmanagerURL cfg @ ''/api/v2/alerts'';
               sent = [(url, ''application/json'', payloadBytes)]
           in case http_Post e url ''application/json'' payloadBytes of
                Inl err \<Rightarrow>
                  \<lparr>response = http_Error ''Failed to send payload to Alertmanager''
                                StatusInternalServerError,
                   posts = sent\<rparr>
              | Inr resp \<Rightarrow>
                  (case resp of (code, bodyBytes) \<Rightarrow>
                     if code \<noteq> StatusOK then
                       \<lparr>response = http_Error (''Error from Alertmanager: '' @ bodyBytes)
                                    StatusInternalServerError,
                        posts = sent\<rparr>
                     else
                       \<lparr>response = \<lparr>StatusCode = StatusOK,
                                    ResponseBody =
                                      ''Payload successfully forwarded to Alertmanager'' @ newline\<rparr>,
                        posts = sent\<rparr>)))"

section \<open>The handler of part 002\<close>

text \<open>
  The lookup of a key followed by the type assertion \<^verbatim>\<open>.(string)\<close>, which is how the handler
  reads every entry of the result: \<^verbatim>\<open>value, ok := m[key]\<close> then \<^verbatim>\<open>strVal, ok := value.(string)\<close>
  (lines 94-95, 106-107), or \<^verbatim>\<open>m[key].(string)\<close> in one step (line 56), which fails as well
  on the \<^verbatim>\<open>nil\<close> of a missing key.
\<close>

definition stringValue :: "result_map \<Rightarrow> string \<Rightarrow> string option" where
  "stringValue result key =
     (case map_of result key of
        None \<Rightarrow> None
      | Some v \<Rightarrow> (case v of JString strVal \<Rightarrow> Some strVal | _ \<Rightarrow> None))"

text \<open>\<^verbatim>\<open>splunkPayload.Result["_time"].(string)\<close> (line 56).\<close>

definition triggerTime :: "result_map \<Rightarrow> string option" where
  "triggerTime result = stringValue result ''_time''"

definition defaultLabels :: "string list" where
  "defaultLabels = [''_raw'', ''host'', ''index'', ''name'', ''source'', ''sourcetype'']"

text \<open>The body of both label loops (lines 94-98 and 106-110).\<close>

definition addLabel :: "result_map \<Rightarrow> string \<Rightarrow> (string \<rightharpoonup> string) \<Rightarrow> (string \<rightharpoonup> string)" where
  "addLabel result key labels =
     (case stringValue result key of
        Some strVal \<Rightarrow> labels(key \<mapsto> strVal)
      | None \<Rightarrow> labels)"

text \<open>Lines 88-111: the default labels, then the additional ones (empty names skipped).\<close>

definition filterLabels :: "Config \<Rightarrow> result_map \<Rightarrow> (string \<rightharpoonup> string)" where
  "filterLabels cfg result =
     fold (\<lambda>key labels. if key = [] then labels else addLabel result key labels)
       (AdditionalLabels cfg)
       (fold (addLabel result) defaultLabels Map.empty)"

text \<open>Lines 55-121: from the decoded payload to the alert, or to the response of an early return.\<close>

definition buildAlert ::
  "('t, 'p) env \<Rightarrow> Config \<Rightarrow> 'a SplunkPayload_scheme \<Rightarrow> Response + 't V2Alert" where
  "buildAlert e cfg splunkPayload =
     (case triggerTime (Result splunkPayload) of
        None \<Rightarrow> Inl (http_Error ''Invalid or missing trigger time'' StatusBadRequest)
      | Some triggerTimeStr \<Rightarrow>
          (case strconv_ParseInt e triggerTimeStr 10 64 of
             Inl err \<Rightarrow> Inl (http_Error ''Invalid trigger time format'' StatusBadRequest)
           | Inr triggerTimeUnix \<Rightarrow>
               (let startsAt = time_Unix e triggerTimeUnix 0
                in case calcEndsAt e cfg startsAt of
                     Inl resp \<Rightarrow> Inl resp
                   | Inr endsAt \<Rightarrow>
                       Inr \<lparr>Status = ''firing'',
                            Labels = filterLabels cfg (Result splunkPayload),
                            Annotations =
                              [''summary'' \<mapsto>
                                 ''Alert triggered in Splunk: '' @ SearchName splunkPayload,
                               ''link'' \<mapsto> ResultsLink splunkPayload],
                            StartsAt = startsAt,
                            EndsAt = endsAt,
                            GeneratorURL = ResultsLink splunkPayload\<rparr>)))"

definition HandleSplunkWebhook ::
  "('t, SplunkPayload) env \<Rightarrow> Config \<Rightarrow> Request \<Rightarrow> Outcome" where
  "HandleSplunkWebhook e cfg r =
     (case Body r of
        Inl err \<Rightarrow> reject (http_Error ''Failed to read request body'' StatusBadRequest)
      | Inr body \<Rightarrow>
          (case json_Unmarshal e body of
             Inl err \<Rightarrow> reject (http_Error ''Failed to parse JSON'' StatusBadRequest)
           | Inr splunkPayload \<Rightarrow>
               (case buildAlert e cfg splunkPayload of
                  Inl resp \<Rightarrow> reject resp
                | Inr v2Alert \<Rightarrow> sendAlert e cfg v2Alert)))"

section \<open>The handler of the archive\<close>

definition strings_HasPrefix :: "string \<Rightarrow> string \<Rightarrow> bool" where
  "strings_HasPrefix s pre = (length pre \<le> length s \<and> take (length pre) s = pre)"

definition strings_TrimPrefix :: "string \<Rightarrow> string \<Rightarrow> string" where
  "strings_TrimPrefix s pre = (if strings_HasPrefix s pre then drop (length pre) s else s)"

text \<open>The body of the loop over the result (archive, lines 65-74).\<close>

fun extractField ::
  "string \<times> json \<Rightarrow> (string \<rightharpoonup> string) \<times> (string \<rightharpoonup> string) \<Rightarrow>
   (string \<rightharpoonup> string) \<times> (string \<rightharpoonup> string)" where
  "extractField (key, JString strVal) (labels, annotations) =
     (if strings_HasPrefix key ''ann.''
      then (labels, annotations(strings_TrimPrefix key ''ann.'' \<mapsto> strVal))
      else (labels(key \<mapsto> strVal), annotations))"
| "extractField (key, v) (labels, annotations) = (labels, annotations)"

text \<open>Archive, lines 60-116.\<close>

definition buildAlert_archive ::
  "('t, 'p) env \<Rightarrow> Config \<Rightarrow> 'a SplunkWebhook_scheme \<Rightarrow> Response + 't V2Alert" where
  "buildAlert_archive e cfg splunkPayload =
     (case fold extractField (Result splunkPayload) (Map.empty, Map.empty) of
        (labels0, annotations0) \<Rightarrow>
          (let labels = labels0(''alertname'' \<mapsto> SearchName splunkPayload,
                               ''app'' \<mapsto> App splunkPayload);
               annotations =
                 annotations0(''summary'' \<mapsto>
                                ''Alert triggered in Splunk: '' @ SearchName splunkPayload,
                              ''link'' \<mapsto> ResultsLink splunkPayload);
               startsAt = time_Now e
           in case calcEndsAt e cfg startsAt of
                Inl resp \<Rightarrow> Inl resp
              | Inr endsAt \<Rightarrow>
                  Inr \<lparr>Status = ''firing'',
                       Labels = labels,
                       Annotations = annotations,
                       StartsAt = startsAt,
                       EndsAt = endsAt,
                       GeneratorURL = ResultsLink splunkPayload\<rparr>))"

definition HandleSplunkWebhook_archive ::
  "('t, SplunkWebhook) env \<Rightarrow> Config \<Rightarrow> Request \<Rightarrow> Outcome" where
  "HandleSplunkWebhook_archive e cfg r =
     (case Body r of
        Inl err \<Rightarrow> reject (http_Error ''Failed to read request body'' StatusBadRequest)
      | Inr body \<Rightarrow>
          (case json_Unmarshal e body of
             Inl err \<Rightarrow> reject (http_Error ''Failed to parse Splunk payload'' StatusBadRequest)
           | Inr splunkPayload \<Rightarrow>
               (case buildAlert_archive e cfg splunkPayload of
                  Inl resp \<Rightarrow> reject resp
                | Inr v2Alert \<Rightarrow> sendAlert e cfg v2Alert)))"

section \<open>Removing an entry of the result\<close>

text \<open>The result without the key \<open>k\<close>: what the payload would be had the entry not been sent.\<close>

definition removeKey :: "string \<Rightarrow> result_map \<Rightarrow> result_map" where
  "removeKey k m = filter (\<lambda>kv. fst kv \<noteq> k) m"

section \<open>An environment to run the handlers in\<close>

text \<open>
  The examples below run the handlers in a concrete environment. Its library functions
  follow the Go ones on the inputs the examples use:
  \<^item> \<open>demo_ParseInt\<close> is \<^verbatim>\<open>strconv.ParseInt\<close> for base 10 and 64 bits: an optional sign,
    decimal digits, and a range error outside the signed 64-bit integers;
  \<^item> \<open>demo_ParseDuration\<close> is \<^verbatim>\<open>time.ParseDuration\<close> on a string made of one unsigned
    decimal integer and one unit; it rejects every other string (Go accepts signs,
    fractions and several terms as well), and is used on \<^verbatim>\<open>1h\<close> and \<^verbatim>\<open>soon\<close> only;
  \<^item> \<open>demo_Unmarshal\<close> decodes the two bodies \<open>demo_body\<close> and \<open>bare_body\<close> and fails on the
    others, of which the examples use the empty body only;
  \<^item> \<open>demo_Marshal\<close> writes the status and the generator URL of each alert only;
  \<^item> a time is the number of nanoseconds since the Unix epoch, the clock reads a fixed
    time in November 2025, and the destination answers 200.
\<close>

definition digitVal :: "char \<Rightarrow> nat option" where
  "digitVal c = (let n = (of_char c :: nat) in if 48 \<le> n \<and> n \<le> 57 then Some (n - 48) else None)"

fun digitsVal :: "string \<Rightarrow> nat \<Rightarrow> nat option" where
  "digitsVal [] acc = Some acc"
| "digitsVal (c # cs) acc =
     (case digitVal c of None \<Rightarrow> None | Some d \<Rightarrow> digitsVal cs (10 * acc + d))"

definition demo_ParseInt :: "string \<Rightarrow> nat \<Rightarrow> nat \<Rightarrow> error + int" where
  "demo_ParseInt s base bitSize =
     (if base \<noteq> 10 \<or> bitSize \<noteq> 64 then Inl (Error ''unsupported base or bit size'')
      else case s of
        [] \<Rightarrow> Inl (Error ''invalid syntax'')
      | c # cs \<Rightarrow>
          (let neg = (c = CHR ''-'');
               ds = (if c = CHR ''+'' \<or> c = CHR ''-'' then cs else s)
           in if ds = [] then Inl (Error ''invalid syntax'')
              else case digitsVal ds 0 of
                None \<Rightarrow> Inl (Error ''invalid syntax'')
              | Some un \<Rightarrow>
                  if \<not> neg \<and> 2 ^ 63 \<le> un then Inl (Error ''value out of range'')
                  else if neg \<and> 2 ^ 63 < un then Inl (Error ''value out of range'')
                  else Inr (if neg then - int un else int un)))"

definition unitNanos :: "string \<Rightarrow> int option" where
  "unitNanos u =
     (if u = ''ns'' then Some 1
      else if u = ''us'' then Some 1000
      else if u = ''ms'' then Some 1000000
      else if u = ''s'' then Some 1000000000
      else if u = ''m'' then Some 60000000000
      else if u = ''h'' then Some 3600000000000
      else None)"

definition demo_ParseDuration :: "string \<Rightarrow> error + int" where
  "demo_ParseDuration s =
     (let ds = takeWhile (\<lambda>c. digitVal c \<noteq> None) s;
          u = dropWhile (\<lambda>c. digitVal c \<noteq> None) s
      in if ds = [] then Inl (Error ''invalid duration'')
         else case digitsVal ds 0 of
           None \<Rightarrow> Inl (Error ''invalid duration'')
         | Some n \<Rightarrow>
             (case unitNanos u of
                None \<Rightarrow> Inl (Error ''unknown unit in duration'')
              | Some f \<Rightarrow>
                  if 2 ^ 63 \<le> int n * f then Inl (Error ''invalid duration'')
                  else Inr (int n * f)))"

definition demo_body :: string where
  \<open>demo_body = ''{"sid":"rt_1","search_name":"cpu","app":"search","owner":"admin","results_link":"http://splunk/r","result":{"_time":"1700000000","host":"web1","ann.foo":"bar","count":42}}''\<close>

definition demo_result :: result_map where
  "demo_result = [(''_time'', JString ''1700000000''), (''host'', JString ''web1''),
                  (''ann.foo'', JString ''bar''), (''count'', JNumber 42)]"

definition demo_payload :: SplunkPayload where
  "demo_payload = \<lparr>Sid = ''rt_1'', SearchName = ''cpu'', App = ''search'',
                    ResultsLink = ''http://splunk/r'', Result = demo_result, Owner = ''admin''\<rparr>"

definition demo_webhook :: SplunkWebhook where
  "demo_webhook = \<lparr>Sid = ''rt_1'', SearchName = ''cpu'', App = ''search'',
                    ResultsLink = ''http://splunk/r'', Result = demo_result\<rparr>"

text \<open>A second body, whose result has no entry \<^verbatim>\<open>_time\<close>.\<close>

definition bare_body :: string where
  \<open>bare_body = ''{"search_name":"cpu","app":"search","result":{"host":"web1"}}''\<close>

definition bare_payload :: SplunkPayload where
  "bare_payload = \<lparr>Sid = [], SearchName = ''cpu'', App = ''search'', ResultsLink = [],
                    Result = [(''host'', JString ''web1'')], Owner = []\<rparr>"

definition bare_webhook :: SplunkWebhook where
  "bare_webhook = \<lparr>Sid = [], SearchName = ''cpu'', App = ''search'', ResultsLink = [],
                    Result = [(''host'', JString ''web1'')]\<rparr>"

definition demo_Unmarshal :: "'p \<Rightarrow> 'p \<Rightarrow> string \<Rightarrow> error + 'p" where
  "demo_Unmarshal demo bare body =
     (if body = demo_body then Inr demo
      else if body = bare_body then Inr bare
      else if body = [] then Inl (Error ''unexpected end of JSON input'')
      else Inl (Error ''invalid character''))"

definition demo_Marshal :: "int V2Alert list \<Rightarrow> error + string" where
  \<open>demo_Marshal alerts =
     Inr (''['' @ concat (map (\<lambda>a. ''{"status":"'' @ Status a @ ''","generatorURL":"''
                                   @ GeneratorURL a @ ''"}'') alerts) @ '']'')\<close>

definition demo_env :: "'p \<Rightarrow> 'p \<Rightarrow> (int, 'p) env" where
  "demo_env demo bare =
     \<lparr>json_Unmarshal = demo_Unmarshal demo bare,
      json_Marshal = demo_Marshal,
      strconv_ParseInt = demo_ParseInt,
      time_Now = 1762000000000000000,
      time_Unix = (\<lambda>sec nsec. sec * 1000000000 + nsec),
      time_ParseDuration = demo_ParseDuration,
      time_Add = (\<lambda>t d. t + d),
      http_Post = (\<lambda>url contentType body. Inr (200, ''ok''))\<rparr>"

text \<open>The environment of each variant, which decodes a body into the variant's own struct.\<close>

definition env_002 :: "(int, SplunkPayload) env" where
  "env_002 = demo_env demo_payload bare_payload"

definition env_archive :: "(int, SplunkWebhook) env" where
  "env_archive = demo_env demo_webhook bare_webhook"

text \<open>The flags' defaults of \<^verbatim>\<open>LoadConfig\<close>, with \<^verbatim>\<open>-e 1h\<close>.\<close>

definition demo_cfg :: Config where
  "demo_cfg = \<lparr>AlertmanagerURL = ''http://localhost:9093'', BindAddress = ''localhost:8080'',
                LogLevel = ''info'', LogFormat = ''text'', EndsAtDuration = ''1h'',
                AdditionalLabels = [''''], AnnotationPrefix = ''ann.''\<rparr>"


text \<open>The same configuration without an end-time offset, and with one that is no duration.\<close>

definition no_ends_at_cfg :: Config where
  "no_ends_at_cfg = demo_cfg\<lparr>EndsAtDuration := []\<rparr>"


text \<open>A payload whose result holds the trigger time and nothing else.\<close>

definition time_only_payload :: SplunkPayload where
  "time_only_payload = demo_payload\<lparr>Result := [(''_time'', JString ''1700000000'')]\<rparr>"

text \<open>The environments in which the destination answers 503 with the body \<^verbatim>\<open>busy\<close>.\<close>

definition env_503 :: "(int, SplunkPayload) env" where
  "env_503 = env_002\<lparr>http_Post := (\<lambda>url contentType body. Inr (503, ''busy''))\<rparr>"

definition env_archive_503 :: "(int, SplunkWebhook) env" where
  "env_archive_503 = env_archive\<lparr>http_Post := (\<lambda>url contentType body. Inr (503, ''busy''))\<rparr>"

text \<open>
  The requests carrying the two bodies, and the URL and the bytes of the POST that
  forwards the alert made from \<open>demo_body\<close>.
\<close>

definition demo_request :: Request where
  "demo_request = \<lparr>Body = Inr demo_body\<rparr>"

definition bare_request :: Request where
  "bare_request = \<lparr>Body = Inr bare_body\<rparr>"

definition demo_url :: string where
  "demo_url = ''http://localhost:9093/api/v2/alerts''"

definition demo_alert_json :: string where
  \<open>demo_alert_json = ''[{"status":"firing","generatorURL":"http://splunk/r"}]''\<close>





section \<open>Auxiliary facts\<close>

lemmas demo_defs = env_002_def env_archive_def demo_env_def demo_cfg_def demo_payload_def demo_webhook_def
  demo_result_def bare_payload_def bare_webhook_def
  demo_Unmarshal_def demo_Marshal_def demo_ParseInt_def demo_ParseDuration_def unitNanos_def
  digitVal_def

lemmas handler_defs = buildAlert_def buildAlert_archive_def calcEndsAt_def triggerTime_def
  stringValue_def filterLabels_def addLabel_def defaultLabels_def http_Error_def
  StatusBadRequest_def StatusInternalServerError_def StatusOK_def reject_def sendAlert_def
  newline_def strings_HasPrefix_def strings_TrimPrefix_def removeKey_def

lemmas wire_defs = demo_url_def demo_alert_json_def demo_request_def bare_request_def
  demo_body_def bare_body_def env_503_def env_archive_503_def HandleSplunkWebhook_def
  HandleSplunkWebhook_archive_def


subsection \<open>Lookups\<close>

lemma map_of_removeKey: "map_of (removeKey k m) = (map_of m)(k := None)"
  by (induction m) (auto simp: removeKey_def)

lemma stringValue_removeKey:
  "stringValue (removeKey k m) key = (if key = k then None else stringValue m key)"
  by (simp add: stringValue_def map_of_removeKey)

lemma stringValue_Some_iff:
  "stringValue m key = Some s \<longleftrightarrow> map_of m key = Some (JString s)"
  by (auto simp: stringValue_def split: option.splits json.splits)

lemma stringValue_not_string:
  "map_of m key = Some v \<Longrightarrow> \<not> isString v \<Longrightarrow> stringValue m key = None"
  by (cases v) (simp_all add: stringValue_def)

subsection \<open>The labels of part 002\<close>

lemma fold_addLabel_lookup:
  "fold (\<lambda>key labels. if P key then labels else addLabel result key labels) ks m k =
     (if k \<in> set ks \<and> \<not> P k \<and> stringValue result k \<noteq> None then stringValue result k else m k)"
  by (induction ks arbitrary: m) (auto simp: addLabel_def split: option.splits)

lemma fold_addLabel_lookup':
  "fold (addLabel result) ks m k =
     (if k \<in> set ks \<and> stringValue result k \<noteq> None then stringValue result k else m k)"
  using fold_addLabel_lookup [where P = "\<lambda>_. False"] by simp

lemma filterLabels_lookup:
  "filterLabels cfg result k =
     (if k \<in> set defaultLabels \<or> (k \<in> set (AdditionalLabels cfg) \<and> k \<noteq> [])
      then stringValue result k else None)"
  by (auto simp: filterLabels_def fold_addLabel_lookup fold_addLabel_lookup')

subsection \<open>The loop of the archive\<close>

lemma extractField_not_string: "\<not> isString v \<Longrightarrow> extractField (k, v) la = la"
  by (cases v; cases la) simp_all

lemma fold_extractField_labels:
  "strings_HasPrefix k ''ann.'' \<Longrightarrow>
   fst (fold extractField (removeKey k xs) (L, A)) = fst (fold extractField xs (L, A'))"
proof (induction xs arbitrary: L A A')
  case Nil
  then show ?case by (simp add: removeKey_def)
next
  case (Cons x xs)
  obtain k' v where x: "x = (k', v)" by (cases x)
  show ?case
  proof (cases "k' = k")
    case True
    then obtain A'' where "extractField x (L, A') = (L, A'')"
      using Cons.prems x by (cases v) auto
    then show ?thesis using Cons.IH [OF Cons.prems, of L A A''] True x
      by (simp add: removeKey_def)
  next
    case False
    obtain L1 A1 where 1: "extractField x (L, A) = (L1, A1)" by (cases "extractField x (L, A)")
    obtain A1' where 2: "extractField x (L, A') = (L1, A1')"
      using 1 x by (cases v) (auto split: if_splits)
    show ?thesis using Cons.IH [OF Cons.prems, of L1 A1 A1'] False x 1 2
      by (simp add: removeKey_def)
  qed
qed

lemma fold_extractField_annotations:
  "\<not> strings_HasPrefix k ''ann.'' \<Longrightarrow>
   snd (fold extractField (removeKey k xs) (L, A)) = snd (fold extractField xs (L', A))"
proof (induction xs arbitrary: L L' A)
  case Nil
  then show ?case by (simp add: removeKey_def)
next
  case (Cons x xs)
  obtain k' v where x: "x = (k', v)" by (cases x)
  show ?case
  proof (cases "k' = k")
    case True
    then obtain L'' where "extractField x (L', A) = (L'', A)"
      using Cons.prems x by (cases v) auto
    then show ?thesis using Cons.IH [OF Cons.prems, of L A L''] True x
      by (simp add: removeKey_def)
  next
    case False
    obtain L1 A1 where 1: "extractField x (L, A) = (L1, A1)" by (cases "extractField x (L, A)")
    obtain L1' where 2: "extractField x (L', A) = (L1', A1)"
      using 1 x by (cases v) (auto split: if_splits)
    show ?thesis using Cons.IH [OF Cons.prems, of L1 A1 L1'] False x 1 2
      by (simp add: removeKey_def)
  qed
qed

lemma fold_extractField_removeKey:
  "distinct (map fst xs) \<Longrightarrow> (k, v) \<in> set xs \<Longrightarrow> \<not> isString v \<Longrightarrow>
   fold extractField (removeKey k xs) la = fold extractField xs la"
proof (induction xs arbitrary: la)
  case Nil
  then show ?case by simp
next
  case (Cons x xs)
  show ?case
  proof (cases "fst x = k")
    case True
    with Cons.prems have xv: "x = (k, v)" and "k \<notin> fst ` set xs"
      by (auto simp: rev_image_eqI)
    then have "removeKey k xs = xs"
      by (auto simp: removeKey_def filter_id_conv)
    then show ?thesis using xv Cons.prems(3) True
      by (simp add: removeKey_def extractField_not_string)
  next
    case False
    with Cons.prems have "(k, v) \<in> set xs" "distinct (map fst xs)" by auto
    then show ?thesis using Cons.IH [of "extractField x la"] Cons.prems(3) False
      by (simp add: removeKey_def)
  qed
qed

lemma HasPrefix_append: "strings_HasPrefix s pre \<longleftrightarrow> (\<exists>r. s = pre @ r)"
proof
  assume "strings_HasPrefix s pre"
  then have "s = pre @ drop (length pre) s"
    unfolding strings_HasPrefix_def by (metis append_take_drop_id)
  then show "\<exists>r. s = pre @ r" ..
next
  assume "\<exists>r. s = pre @ r"
  then show "strings_HasPrefix s pre" by (auto simp: strings_HasPrefix_def)
qed

lemma TrimPrefix_eq_iff:
  assumes "strings_HasPrefix k pre"
  shows "(strings_TrimPrefix k pre = key) = (k = pre @ key)"
proof -
  from assms obtain r where r: "k = pre @ r" by (auto simp: HasPrefix_append)
  have "strings_TrimPrefix k pre = r" using assms by (simp add: strings_TrimPrefix_def r)
  then show ?thesis by (simp add: r)
qed

text \<open>With distinct keys, what the loop stores under a key.\<close>

lemma stringValue_Cons:
  "stringValue ((k, v) # xs) key =
     (if key = k then (case v of JString s \<Rightarrow> Some s | _ \<Rightarrow> None) else stringValue xs key)"
  by (simp add: stringValue_def)

lemma stringValue_fresh: "k \<notin> fst ` set xs \<Longrightarrow> stringValue xs k = None"
proof -
  assume "k \<notin> fst ` set xs"
  then have "map_of xs k = None" by (simp add: map_of_eq_None_iff)
  then show ?thesis by (simp add: stringValue_def)
qed

lemma fst_extractField:
  "fst (extractField (k, v) la) =
     (case v of JString s \<Rightarrow> if strings_HasPrefix k ''ann.'' then fst la else (fst la)(k \<mapsto> s)
      | _ \<Rightarrow> fst la)"
  by (cases v; cases la) simp_all

lemma snd_extractField:
  "snd (extractField (k, v) la) =
     (case v of JString s \<Rightarrow>
        if strings_HasPrefix k ''ann.'' then (snd la)(strings_TrimPrefix k ''ann.'' \<mapsto> s)
        else snd la
      | _ \<Rightarrow> snd la)"
  by (cases v; cases la) simp_all

lemma fold_extractField_labels_lookup:
  "distinct (map fst xs) \<Longrightarrow>
   fst (fold extractField xs la) key =
     (if stringValue xs key \<noteq> None \<and> \<not> strings_HasPrefix key ''ann.''
      then stringValue xs key else fst la key)"
proof (induction xs arbitrary: la)
  case Nil
  then show ?case by (simp add: stringValue_def)
next
  case (Cons x xs)
  obtain k v where x: "x = (k, v)" by (cases x)
  from Cons.prems x have d: "distinct (map fst xs)" and sv: "stringValue xs k = None"
    by (auto simp: stringValue_fresh)
  have IH: "fst (fold extractField xs (extractField (k, v) la)) key =
     (if stringValue xs key \<noteq> None \<and> \<not> strings_HasPrefix key ''ann.''
      then stringValue xs key else fst (extractField (k, v) la) key)"
    using Cons.IH [OF d] .
  show ?case
  proof (cases "key = k")
    case True
    then show ?thesis using IH sv
      by (cases v) (simp_all add: x stringValue_Cons fst_extractField)
  next
    case False
    then show ?thesis using IH
      by (cases v) (simp_all add: x stringValue_Cons fst_extractField)
  qed
qed

lemma fold_extractField_annotations_lookup:
  "distinct (map fst xs) \<Longrightarrow>
   snd (fold extractField xs la) key =
     (if stringValue xs (''ann.'' @ key) \<noteq> None
      then stringValue xs (''ann.'' @ key) else snd la key)"
proof (induction xs arbitrary: la)
  case Nil
  then show ?case by (simp add: stringValue_def)
next
  case (Cons x xs)
  obtain k v where x: "x = (k, v)" by (cases x)
  from Cons.prems x have d: "distinct (map fst xs)" and sv: "stringValue xs k = None"
    by (auto simp: stringValue_fresh)
  have IH: "snd (fold extractField xs (extractField (k, v) la)) key =
     (if stringValue xs (''ann.'' @ key) \<noteq> None
      then stringValue xs (''ann.'' @ key) else snd (extractField (k, v) la) key)"
    using Cons.IH [OF d] .
  show ?case
  proof (cases "k = ''ann.'' @ key")
    case True
    then have hp: "strings_HasPrefix k ''ann.''" by (simp add: HasPrefix_append)
    have "strings_TrimPrefix k ''ann.'' = key" using TrimPrefix_eq_iff [OF hp] True by simp
    then show ?thesis using True hp sv IH
      by (cases v) (simp_all add: x stringValue_Cons snd_extractField)
  next
    case False
    have "strings_HasPrefix k ''ann.'' \<Longrightarrow> strings_TrimPrefix k ''ann.'' \<noteq> key"
      using TrimPrefix_eq_iff False by simp
    then show ?thesis using False IH
      by (cases v) (auto simp add: x stringValue_Cons snd_extractField)
  qed
qed

subsection \<open>What a produced alert is\<close>

lemma buildAlert_Inr:
  "buildAlert e cfg p = Inr a \<Longrightarrow>
   \<exists>s n endsAt. triggerTime (Result p) = Some s \<and> strconv_ParseInt e s 10 64 = Inr n \<and>
     calcEndsAt e cfg (time_Unix e n 0) = Inr endsAt \<and>
     a = \<lparr>Status = ''firing'', Labels = filterLabels cfg (Result p),
          Annotations = [''summary'' \<mapsto> ''Alert triggered in Splunk: '' @ SearchName p,
                         ''link'' \<mapsto> ResultsLink p],
          StartsAt = time_Unix e n 0, EndsAt = endsAt, GeneratorURL = ResultsLink p\<rparr>"
  by (auto simp: buildAlert_def Let_def split: option.splits sum.splits)

lemma buildAlert_archive_Inr:
  "buildAlert_archive e cfg q = Inr b \<Longrightarrow>
   \<exists>endsAt. calcEndsAt e cfg (time_Now e) = Inr endsAt \<and>
     b = \<lparr>Status = ''firing'',
          Labels = (fst (fold extractField (Result q) (Map.empty, Map.empty)))
                     (''alertname'' \<mapsto> SearchName q, ''app'' \<mapsto> App q),
          Annotations = (snd (fold extractField (Result q) (Map.empty, Map.empty)))
                     (''summary'' \<mapsto> ''Alert triggered in Splunk: '' @ SearchName q,
                      ''link'' \<mapsto> ResultsLink q),
          StartsAt = time_Now e, EndsAt = endsAt, GeneratorURL = ResultsLink q\<rparr>"
  by (auto simp: buildAlert_archive_def Let_def split: prod.splits sum.splits)

lemma Annotations_buildAlert:
  "buildAlert e cfg p = Inr a \<Longrightarrow>
   Annotations a = [''summary'' \<mapsto> ''Alert triggered in Splunk: '' @ SearchName p,
                    ''link'' \<mapsto> ResultsLink p]"
  by (auto dest!: buildAlert_Inr)

lemma Labels_buildAlert: "buildAlert e cfg p = Inr a \<Longrightarrow> Labels a = filterLabels cfg (Result p)"
  by (auto dest!: buildAlert_Inr)

lemma Labels_buildAlert_archive:
  "buildAlert_archive e cfg q = Inr b \<Longrightarrow>
   Labels b = (fst (fold extractField (Result q) (Map.empty, Map.empty)))
                (''alertname'' \<mapsto> SearchName q, ''app'' \<mapsto> App q)"
  by (auto dest!: buildAlert_archive_Inr)

lemma Annotations_buildAlert_archive:
  "buildAlert_archive e cfg q = Inr b \<Longrightarrow>
   Annotations b = (snd (fold extractField (Result q) (Map.empty, Map.empty)))
                     (''summary'' \<mapsto> ''Alert triggered in Splunk: '' @ SearchName q,
                      ''link'' \<mapsto> ResultsLink q)"
  by (auto dest!: buildAlert_archive_Inr)

lemma Inr_projr: "\<not> isl x \<Longrightarrow> x = Inr (projr x)"
  by simp

subsection \<open>The end time\<close>

lemma calcEndsAt_Inr:
  "calcEndsAt e cfg t = Inr x \<Longrightarrow>
   (EndsAtDuration cfg = [] \<longrightarrow> x = None) \<and>
   (\<forall>d. EndsAtDuration cfg \<noteq> [] \<and> time_ParseDuration e (EndsAtDuration cfg) = Inr d \<longrightarrow>
        x = Some (time_Add e t d))"
  by (auto simp: calcEndsAt_def split: if_splits sum.splits)


lemma EndsAt_buildAlert:
  "buildAlert e cfg p = Inr a \<Longrightarrow> calcEndsAt e cfg (StartsAt a) = Inr (EndsAt a)"
  by (auto dest!: buildAlert_Inr)

lemma EndsAt_buildAlert_archive:
  "buildAlert_archive e cfg q = Inr b \<Longrightarrow> calcEndsAt e cfg (StartsAt b) = Inr (EndsAt b)"
  by (auto dest!: buildAlert_archive_Inr)

subsection \<open>A configuration whose end-time offset does not parse\<close>







subsection \<open>Forwarding\<close>

lemma sendAlert_forwarded:
  assumes "(url, ct, payload) \<in> set (posts (sendAlert e cfg a))"
  shows "(\<forall>err. http_Post e url ct payload = Inl err \<longrightarrow>
            StatusCode (response (sendAlert e cfg a)) = 500) \<and>
         (\<forall>code rbody. http_Post e url ct payload = Inr (code, rbody) \<longrightarrow>
            (StatusCode (response (sendAlert e cfg a)) = 200 \<longleftrightarrow> code = 200) \<and>
            (code \<noteq> 200 \<longrightarrow>
               response (sendAlert e cfg a) =
                 \<lparr>StatusCode = 500,
                  ResponseBody = ''Error from Alertmanager: '' @ rbody @ newline\<rparr>))"
  using assms
  by (auto simp: sendAlert_def reject_def http_Error_def StatusOK_def
      StatusInternalServerError_def Let_def split: sum.splits prod.splits if_splits)

lemma handler_posts:
  "(url, ct, payload) \<in> set (posts (HandleSplunkWebhook e cfg r)) \<Longrightarrow>
   \<exists>a. HandleSplunkWebhook e cfg r = sendAlert e cfg a"
  by (auto simp: HandleSplunkWebhook_def reject_def split: sum.splits)

lemma handler_archive_posts:
  "(url, ct, payload) \<in> set (posts (HandleSplunkWebhook_archive e cfg r)) \<Longrightarrow>
   \<exists>a. HandleSplunkWebhook_archive e cfg r = sendAlert e cfg a"
  by (auto simp: HandleSplunkWebhook_archive_def reject_def split: sum.splits)

subsection \<open>The trigger time\<close>





section \<open>The claims\<close>

text \<open>
  C1. For every inbound event, each key of the result set is routed to exactly one of the
  label set, the annotation set, or dropped: no key of the result contributes to both the
  labels and the annotations of the produced alert. An entry contributes to a set when the
  set changes once the entry is taken out of the result. In the handler of part 002 the
  annotations never depend on the result; in the archived handler an entry whose key starts
  with \<^verbatim>\<open>ann.\<close> leaves the labels as they are, and every other entry leaves the annotations
  as they are.
\<close>

theorem result_key_in_one_set:
  fixes p :: "'a SplunkPayload_scheme" and q :: "'b SplunkWebhook_scheme"
  shows "(\<forall>a a'. buildAlert e cfg p = Inr a \<longrightarrow>
            buildAlert e cfg (p\<lparr>Result := removeKey k (Result p)\<rparr>) = Inr a' \<longrightarrow>
            Annotations a' = Annotations a) \<and>
         (\<forall>b b'. buildAlert_archive e' cfg q = Inr b \<longrightarrow>
            buildAlert_archive e' cfg (q\<lparr>Result := removeKey k (Result q)\<rparr>) = Inr b' \<longrightarrow>
            (if strings_HasPrefix k ''ann.'' then Labels b' = Labels b
             else Annotations b' = Annotations b))"
proof (intro conjI allI impI)
  fix a a'
  assume "buildAlert e cfg p = Inr a"
    and "buildAlert e cfg (p\<lparr>Result := removeKey k (Result p)\<rparr>) = Inr a'"
  then show "Annotations a' = Annotations a"
    by (auto dest!: buildAlert_Inr)
next
  fix b b'
  assume b: "buildAlert_archive e' cfg q = Inr b"
    and b': "buildAlert_archive e' cfg (q\<lparr>Result := removeKey k (Result q)\<rparr>) = Inr b'"
  show "if strings_HasPrefix k ''ann.'' then Labels b' = Labels b
        else Annotations b' = Annotations b"
  proof (cases "strings_HasPrefix k ''ann.''")
    case True
    then show ?thesis
      using buildAlert_archive_Inr [OF b] buildAlert_archive_Inr [OF b']
        fold_extractField_labels [OF True, of "Result q" Map.empty Map.empty Map.empty]
      by auto
  next
    case False
    then show ?thesis
      using buildAlert_archive_Inr [OF b] buildAlert_archive_Inr [OF b']
        fold_extractField_annotations [OF False, of "Result q" Map.empty Map.empty Map.empty]
      by auto
  qed
qed

theorem result_key_in_one_set_witness:
  "\<not> isl (buildAlert env_002 demo_cfg demo_payload) \<and>
   \<not> isl (buildAlert env_002 demo_cfg
       (demo_payload\<lparr>Result := removeKey ''host'' (Result demo_payload)\<rparr>)) \<and>
   Annotations (projr (buildAlert env_002 demo_cfg
       (demo_payload\<lparr>Result := removeKey ''host'' (Result demo_payload)\<rparr>))) =
     Annotations (projr (buildAlert env_002 demo_cfg demo_payload)) \<and>
   \<not> isl (buildAlert_archive env_archive demo_cfg demo_webhook) \<and>
   \<not> isl (buildAlert_archive env_archive demo_cfg
       (demo_webhook\<lparr>Result := removeKey ''ann.foo'' (Result demo_webhook)\<rparr>)) \<and>
   strings_HasPrefix ''ann.foo'' ''ann.'' \<and>
   Labels (projr (buildAlert_archive env_archive demo_cfg
       (demo_webhook\<lparr>Result := removeKey ''ann.foo'' (Result demo_webhook)\<rparr>))) =
     Labels (projr (buildAlert_archive env_archive demo_cfg demo_webhook))"
proof -
  let ?p' = "demo_payload\<lparr>Result := removeKey ''host'' (Result demo_payload)\<rparr>"
  let ?q' = "demo_webhook\<lparr>Result := removeKey ''ann.foo'' (Result demo_webhook)\<rparr>"
  have 1: "\<not> isl (buildAlert env_002 demo_cfg demo_payload)"
    by (simp add: demo_defs handler_defs)
  have 2: "\<not> isl (buildAlert env_002 demo_cfg ?p')"
    by (simp add: demo_defs handler_defs)
  have 3: "\<not> isl (buildAlert_archive env_archive demo_cfg demo_webhook)"
    by (simp add: demo_defs handler_defs)
  have 4: "\<not> isl (buildAlert_archive env_archive demo_cfg ?q')"
    by (simp add: demo_defs handler_defs)
  have 5: "strings_HasPrefix ''ann.foo'' ''ann.''"
    by (simp add: strings_HasPrefix_def)
  have "Annotations (projr (buildAlert env_002 demo_cfg ?p')) =
        Annotations (projr (buildAlert env_002 demo_cfg demo_payload))"
    using result_key_in_one_set [of env_002 demo_cfg demo_payload "''host''" env_archive demo_webhook]
      Inr_projr [OF 1] Inr_projr [OF 2] by blast
  moreover have "Labels (projr (buildAlert_archive env_archive demo_cfg ?q')) =
        Labels (projr (buildAlert_archive env_archive demo_cfg demo_webhook))"
    using result_key_in_one_set [of env_002 demo_cfg demo_payload "''ann.foo''" env_archive demo_webhook]
      Inr_projr [OF 3] Inr_projr [OF 4] 5 by presburger
  ultimately show ?thesis using 1 2 3 4 5 by blast
qed


text \<open>
  C2. A result entry with key \<^verbatim>\<open>ann.foo\<close> and string value \<^verbatim>\<open>bar\<close>, under the annotation
  prefix \<^verbatim>\<open>ann.\<close>, is claimed to yield the annotation \<^verbatim>\<open>foo=bar\<close> and no label. The handler
  of part 002 has no annotation prefix: run on such an entry, with the prefix configured as
  \<^verbatim>\<open>ann.\<close>, it produces an alert without an annotation \<^verbatim>\<open>foo\<close>.
\<close>

theorem annotation_entry_counterexample:
  "map_of (Result demo_payload) ''ann.foo'' = Some (JString ''bar'') \<and>
   AnnotationPrefix demo_cfg = ''ann.'' \<and>
   \<not> isl (buildAlert env_002 demo_cfg demo_payload) \<and>
   Annotations (projr (buildAlert env_002 demo_cfg demo_payload)) ''foo'' = None"
  by (simp add: demo_defs handler_defs)

text \<open>
  C2, as the code has it. In the archived handler, whose prefix is the fixed string
  \<^verbatim>\<open>ann.\<close>, the entry yields the annotation \<^verbatim>\<open>foo=bar\<close>, there is no label \<^verbatim>\<open>ann.foo\<close>, and
  the labels are the ones of the same payload without the entry. In the handler of part 002
  the annotations are \<^verbatim>\<open>summary\<close> and \<^verbatim>\<open>link\<close> and nothing else, and the entry becomes the
  label \<^verbatim>\<open>ann.foo=bar\<close> exactly when \<^verbatim>\<open>ann.foo\<close> is one of the additional labels.
\<close>

theorem annotation_entry_by_variant:
  fixes p :: "'a SplunkPayload_scheme" and q :: "'b SplunkWebhook_scheme"
  shows "(distinct (map fst (Result q)) \<and>
          map_of (Result q) ''ann.foo'' = Some (JString ''bar'') \<and>
          buildAlert_archive e' cfg q = Inr b \<longrightarrow>
            Annotations b ''foo'' = Some ''bar'' \<and> Labels b ''ann.foo'' = None \<and>
            (\<forall>b'. buildAlert_archive e' cfg (q\<lparr>Result := removeKey ''ann.foo'' (Result q)\<rparr>) = Inr b'
               \<longrightarrow> Labels b' = Labels b)) \<and>
         (map_of (Result p) ''ann.foo'' = Some (JString ''bar'') \<and>
          buildAlert e cfg p = Inr a \<longrightarrow>
            Annotations a = [''summary'' \<mapsto> ''Alert triggered in Splunk: '' @ SearchName p,
                             ''link'' \<mapsto> ResultsLink p] \<and>
            Annotations a ''foo'' = None \<and>
            Labels a ''ann.foo'' =
              (if ''ann.foo'' \<in> set (AdditionalLabels cfg) then Some ''bar'' else None))"
proof (intro conjI impI)
  assume h: "distinct (map fst (Result q)) \<and>
          map_of (Result q) ''ann.foo'' = Some (JString ''bar'') \<and>
          buildAlert_archive e' cfg q = Inr b"
  then have d: "distinct (map fst (Result q))"
    and sv: "stringValue (Result q) ''ann.foo'' = Some ''bar''"
    and b: "buildAlert_archive e' cfg q = Inr b"
    by (simp_all add: stringValue_Some_iff)
  have hp: "strings_HasPrefix ''ann.foo'' ''ann.''" by (simp add: strings_HasPrefix_def)
  show "Annotations b ''foo'' = Some ''bar''"
    using sv by (simp add: Annotations_buildAlert_archive [OF b]
        fold_extractField_annotations_lookup [OF d])
  show "Labels b ''ann.foo'' = None"
    using hp by (simp add: Labels_buildAlert_archive [OF b]
        fold_extractField_labels_lookup [OF d])
  show "\<forall>b'. buildAlert_archive e' cfg (q\<lparr>Result := removeKey ''ann.foo'' (Result q)\<rparr>) = Inr b'
               \<longrightarrow> Labels b' = Labels b"
  proof (intro allI impI)
    fix b'
    assume b': "buildAlert_archive e' cfg (q\<lparr>Result := removeKey ''ann.foo'' (Result q)\<rparr>) = Inr b'"
    show "Labels b' = Labels b"
      using fold_extractField_labels [OF hp, of "Result q" Map.empty Map.empty Map.empty]
      by (simp add: Labels_buildAlert_archive [OF b] Labels_buildAlert_archive [OF b'])
  qed
next
  assume h: "map_of (Result p) ''ann.foo'' = Some (JString ''bar'') \<and> buildAlert e cfg p = Inr a"
  then have sv: "stringValue (Result p) ''ann.foo'' = Some ''bar''"
    and a: "buildAlert e cfg p = Inr a"
    by (simp_all add: stringValue_Some_iff)
  show "Annotations a = [''summary'' \<mapsto> ''Alert triggered in Splunk: '' @ SearchName p,
                             ''link'' \<mapsto> ResultsLink p]"
    by (rule Annotations_buildAlert [OF a])
  show "Annotations a ''foo'' = None"
    by (simp add: Annotations_buildAlert [OF a])
  show "Labels a ''ann.foo'' =
          (if ''ann.foo'' \<in> set (AdditionalLabels cfg) then Some ''bar'' else None)"
    using sv by (simp add: Labels_buildAlert [OF a] filterLabels_lookup defaultLabels_def)
qed


theorem annotation_entry_by_variant_witness:
  "distinct (map fst (Result demo_webhook)) \<and>
   map_of (Result demo_webhook) ''ann.foo'' = Some (JString ''bar'') \<and>
   \<not> isl (buildAlert_archive env_archive demo_cfg demo_webhook) \<and>
   Annotations (projr (buildAlert_archive env_archive demo_cfg demo_webhook)) ''foo'' = Some ''bar'' \<and>
   Labels (projr (buildAlert_archive env_archive demo_cfg demo_webhook)) ''ann.foo'' = None \<and>
   map_of (Result demo_payload) ''ann.foo'' = Some (JString ''bar'') \<and>
   \<not> isl (buildAlert env_002 demo_cfg demo_payload) \<and>
   Annotations (projr (buildAlert env_002 demo_cfg demo_payload)) ''foo'' = None \<and>
   Labels (projr (buildAlert env_002 demo_cfg demo_payload)) ''ann.foo'' = None"
proof -
  have 1: "distinct (map fst (Result demo_webhook))"
    by (simp add: demo_defs)
  have 2: "map_of (Result demo_webhook) ''ann.foo'' = Some (JString ''bar'')"
    by (simp add: demo_defs)
  have 3: "\<not> isl (buildAlert_archive env_archive demo_cfg demo_webhook)"
    by (simp add: demo_defs handler_defs)
  have 4: "map_of (Result demo_payload) ''ann.foo'' = Some (JString ''bar'')"
    by (simp add: demo_defs)
  have 5: "\<not> isl (buildAlert env_002 demo_cfg demo_payload)"
    by (simp add: demo_defs handler_defs)
  have 6: "''ann.foo'' \<notin> set (AdditionalLabels demo_cfg)"
    by (simp add: demo_defs)
  note inst = annotation_entry_by_variant [of demo_webhook env_archive demo_cfg
        "projr (buildAlert_archive env_archive demo_cfg demo_webhook)" demo_payload
        env_002 "projr (buildAlert env_002 demo_cfg demo_payload)"]
  have 7: "Annotations (projr (buildAlert_archive env_archive demo_cfg demo_webhook)) ''foo'' =
             Some ''bar'' \<and>
           Labels (projr (buildAlert_archive env_archive demo_cfg demo_webhook)) ''ann.foo'' = None"
    using inst 1 2 Inr_projr [OF 3] by blast
  have 8: "Annotations (projr (buildAlert env_002 demo_cfg demo_payload)) ''foo'' = None \<and>
           Labels (projr (buildAlert env_002 demo_cfg demo_payload)) ''ann.foo'' =
             (if ''ann.foo'' \<in> set (AdditionalLabels demo_cfg) then Some ''bar'' else None)"
    using inst 4 Inr_projr [OF 5] by blast
  show ?thesis
    using 1 2 3 4 5 6 7 8 by simp
qed

text \<open>
  C3. A result entry whose value is not a JSON string (the number 42, say) contributes
  neither a label nor an annotation: in both variants the handler produces the same alert,
  or the same rejection, as for the payload without that entry.
\<close>

theorem non_string_entry_dropped:
  fixes p :: "'a SplunkPayload_scheme" and q :: "'b SplunkWebhook_scheme"
  shows "(map_of (Result p) k = Some v \<and> \<not> isString v \<longrightarrow>
            buildAlert e cfg (p\<lparr>Result := removeKey k (Result p)\<rparr>) = buildAlert e cfg p) \<and>
         (distinct (map fst (Result q)) \<and> map_of (Result q) k = Some v \<and> \<not> isString v \<longrightarrow>
            buildAlert_archive e' cfg (q\<lparr>Result := removeKey k (Result q)\<rparr>) =
            buildAlert_archive e' cfg q)"
proof (intro conjI impI)
  assume "map_of (Result p) k = Some v \<and> \<not> isString v"
  then have none: "stringValue (Result p) k = None"
    by (simp add: stringValue_not_string)
  have sv: "stringValue (removeKey k (Result p)) key = stringValue (Result p) key" for key
    using none by (simp add: stringValue_removeKey)
  have "filterLabels cfg (removeKey k (Result p)) = filterLabels cfg (Result p)"
    by (rule ext) (simp add: filterLabels_lookup sv)
  then show "buildAlert e cfg (p\<lparr>Result := removeKey k (Result p)\<rparr>) = buildAlert e cfg p"
    by (simp add: buildAlert_def triggerTime_def sv Let_def
        cong: option.case_cong sum.case_cong)
next
  assume h: "distinct (map fst (Result q)) \<and> map_of (Result q) k = Some v \<and> \<not> isString v"
  then have "(k, v) \<in> set (Result q)" by (simp add: map_of_SomeD)
  then have "fold extractField (removeKey k (Result q)) (Map.empty, Map.empty) =
             fold extractField (Result q) (Map.empty, Map.empty)"
    using h by (simp add: fold_extractField_removeKey)
  then show "buildAlert_archive e' cfg (q\<lparr>Result := removeKey k (Result q)\<rparr>) =
             buildAlert_archive e' cfg q"
    by (simp add: buildAlert_archive_def Let_def cong: prod.case_cong sum.case_cong)
qed

theorem non_string_entry_dropped_witness:
  "map_of (Result demo_payload) ''count'' = Some (JNumber 42) \<and> \<not> isString (JNumber 42) \<and>
   distinct (map fst (Result demo_webhook)) \<and>
   map_of (Result demo_webhook) ''count'' = Some (JNumber 42) \<and>
   \<not> isl (buildAlert env_002 demo_cfg demo_payload) \<and>
   \<not> isl (buildAlert_archive env_archive demo_cfg demo_webhook) \<and>
   buildAlert env_002 demo_cfg (demo_payload\<lparr>Result := removeKey ''count'' (Result demo_payload)\<rparr>) =
     buildAlert env_002 demo_cfg demo_payload \<and>
   buildAlert_archive env_archive demo_cfg
       (demo_webhook\<lparr>Result := removeKey ''count'' (Result demo_webhook)\<rparr>) =
     buildAlert_archive env_archive demo_cfg demo_webhook"
proof -
  have 1: "map_of (Result demo_payload) ''count'' = Some (JNumber 42)"
    by (simp add: demo_defs)
  have 2: "\<not> isString (JNumber 42)"
    by simp
  have 3: "distinct (map fst (Result demo_webhook))"
    by (simp add: demo_defs)
  have 4: "map_of (Result demo_webhook) ''count'' = Some (JNumber 42)"
    by (simp add: demo_defs)
  have 5: "\<not> isl (buildAlert env_002 demo_cfg demo_payload)"
    by (simp add: demo_defs handler_defs)
  have 6: "\<not> isl (buildAlert_archive env_archive demo_cfg demo_webhook)"
    by (simp add: demo_defs handler_defs)
  show ?thesis
    using non_string_entry_dropped [of demo_payload "''count''" "JNumber 42" env_002 demo_cfg
        demo_webhook env_archive] 1 2 3 4 5 6
    by presburger
qed

text \<open>
  C4. A request whose body is empty or is not well-formed JSON for the inbound event, that
  is one on which \<^verbatim>\<open>json.Unmarshal\<close> returns an error, is answered with status 400 and no
  outbound POST is made, in both variants.
\<close>

theorem malformed_body_rejected:
  "(Body r = Inr body \<and> json_Unmarshal e body = Inl err \<longrightarrow>
      StatusCode (response (HandleSplunkWebhook e cfg r)) = 400 \<and>
      posts (HandleSplunkWebhook e cfg r) = []) \<and>
   (Body r = Inr body \<and> json_Unmarshal e' body = Inl err' \<longrightarrow>
      StatusCode (response (HandleSplunkWebhook_archive e' cfg r)) = 400 \<and>
      posts (HandleSplunkWebhook_archive e' cfg r) = [])"
  by (simp add: HandleSplunkWebhook_def HandleSplunkWebhook_archive_def reject_def
      http_Error_def StatusBadRequest_def)

theorem malformed_body_rejected_witness:
  "json_Unmarshal env_002 [] = Inl (Error ''unexpected end of JSON input'') \<and>
   StatusCode (response (HandleSplunkWebhook env_002 demo_cfg \<lparr>Body = Inr []\<rparr>)) = 400 \<and>
   posts (HandleSplunkWebhook env_002 demo_cfg \<lparr>Body = Inr []\<rparr>) = [] \<and>
   json_Unmarshal env_archive [] = Inl (Error ''unexpected end of JSON input'') \<and>
   StatusCode (response (HandleSplunkWebhook_archive env_archive demo_cfg \<lparr>Body = Inr []\<rparr>)) = 400 \<and>
   posts (HandleSplunkWebhook_archive env_archive demo_cfg \<lparr>Body = Inr []\<rparr>) = []"
proof -
  have 1: "json_Unmarshal env_002 [] = Inl (Error ''unexpected end of JSON input'')"
    by (simp add: demo_defs demo_body_def bare_body_def)
  have 2: "json_Unmarshal env_archive [] = Inl (Error ''unexpected end of JSON input'')"
    by (simp add: demo_defs demo_body_def bare_body_def)
  have 3: "Body \<lparr>Body = Inr []\<rparr> = Inr []"
    by simp
  show ?thesis
    using malformed_body_rejected [of "\<lparr>Body = Inr []\<rparr>" "[]" env_002
        "Error ''unexpected end of JSON input''" demo_cfg env_archive
        "Error ''unexpected end of JSON input''"] 1 2 3
    by presburger
qed

text \<open>
  C5. When the configured end-time offset is a duration that \<^verbatim>\<open>time.ParseDuration\<close> parses,
  the end time of the produced alert is its start time plus that duration
  (\<^verbatim>\<open>startsAt.Add(duration)\<close>); for the offset \<^verbatim>\<open>1h\<close>, which parses to \<^verbatim>\<open>time.Hour\<close>, it is
  the start time plus one hour; and an empty offset gives no end time. Both variants.
\<close>

theorem ends_at_is_start_plus_duration:
  fixes p :: "'a SplunkPayload_scheme" and q :: "'b SplunkWebhook_scheme"
  shows "(buildAlert e cfg p = Inr a \<longrightarrow>
            (EndsAtDuration cfg = [] \<longrightarrow> EndsAt a = None) \<and>
            (\<forall>d. EndsAtDuration cfg \<noteq> [] \<and> time_ParseDuration e (EndsAtDuration cfg) = Inr d \<longrightarrow>
                 EndsAt a = Some (time_Add e (StartsAt a) d)) \<and>
            (EndsAtDuration cfg = ''1h'' \<and> time_ParseDuration e ''1h'' = Inr time_Hour \<longrightarrow>
                 EndsAt a = Some (time_Add e (StartsAt a) time_Hour))) \<and>
         (buildAlert_archive e' cfg q = Inr b \<longrightarrow>
            (EndsAtDuration cfg = [] \<longrightarrow> EndsAt b = None) \<and>
            (\<forall>d. EndsAtDuration cfg \<noteq> [] \<and> time_ParseDuration e' (EndsAtDuration cfg) = Inr d \<longrightarrow>
                 EndsAt b = Some (time_Add e' (StartsAt b) d)) \<and>
            (EndsAtDuration cfg = ''1h'' \<and> time_ParseDuration e' ''1h'' = Inr time_Hour \<longrightarrow>
                 EndsAt b = Some (time_Add e' (StartsAt b) time_Hour)))"
proof (intro conjI impI)
  assume a: "buildAlert e cfg p = Inr a"
  note c = calcEndsAt_Inr [OF EndsAt_buildAlert [OF a]]
  show "EndsAtDuration cfg = [] \<Longrightarrow> EndsAt a = None"
    using c by simp
  show "\<forall>d. EndsAtDuration cfg \<noteq> [] \<and> time_ParseDuration e (EndsAtDuration cfg) = Inr d \<longrightarrow>
          EndsAt a = Some (time_Add e (StartsAt a) d)"
    using c by simp
  show "EndsAt a = Some (time_Add e (StartsAt a) time_Hour)"
    if "EndsAtDuration cfg = ''1h'' \<and> time_ParseDuration e ''1h'' = Inr time_Hour"
    using c that by auto
next
  assume b: "buildAlert_archive e' cfg q = Inr b"
  note c = calcEndsAt_Inr [OF EndsAt_buildAlert_archive [OF b]]
  show "EndsAtDuration cfg = [] \<Longrightarrow> EndsAt b = None"
    using c by simp
  show "\<forall>d. EndsAtDuration cfg \<noteq> [] \<and> time_ParseDuration e' (EndsAtDuration cfg) = Inr d \<longrightarrow>
          EndsAt b = Some (time_Add e' (StartsAt b) d)"
    using c by simp
  show "EndsAt b = Some (time_Add e' (StartsAt b) time_Hour)"
    if "EndsAtDuration cfg = ''1h'' \<and> time_ParseDuration e' ''1h'' = Inr time_Hour"
    using c that by auto
qed

theorem ends_at_is_start_plus_duration_witness:
  "EndsAtDuration demo_cfg = ''1h'' \<and> time_ParseDuration env_002 ''1h'' = Inr time_Hour \<and>
   \<not> isl (buildAlert env_002 demo_cfg demo_payload) \<and>
   EndsAt (projr (buildAlert env_002 demo_cfg demo_payload)) =
     Some (StartsAt (projr (buildAlert env_002 demo_cfg demo_payload)) + 3600000000000) \<and>
   \<not> isl (buildAlert_archive env_archive demo_cfg demo_webhook) \<and>
   EndsAt (projr (buildAlert_archive env_archive demo_cfg demo_webhook)) =
     Some (StartsAt (projr (buildAlert_archive env_archive demo_cfg demo_webhook)) + 3600000000000) \<and>
   EndsAtDuration no_ends_at_cfg = [] \<and>
   \<not> isl (buildAlert env_002 no_ends_at_cfg demo_payload) \<and>
   EndsAt (projr (buildAlert env_002 no_ends_at_cfg demo_payload)) = None \<and>
   \<not> isl (buildAlert_archive env_archive no_ends_at_cfg demo_webhook) \<and>
   EndsAt (projr (buildAlert_archive env_archive no_ends_at_cfg demo_webhook)) = None"
proof -
  have 1: "EndsAtDuration demo_cfg = ''1h''" "EndsAtDuration no_ends_at_cfg = []"
    by (simp_all add: demo_defs no_ends_at_cfg_def)
  have 2: "time_ParseDuration env_002 ''1h'' = Inr time_Hour"
    "time_ParseDuration env_archive ''1h'' = Inr time_Hour"
    by (simp_all add: demo_defs time_Hour_def)
  have 3: "\<not> isl (buildAlert env_002 demo_cfg demo_payload)"
    by (simp add: demo_defs handler_defs)
  have 4: "\<not> isl (buildAlert_archive env_archive demo_cfg demo_webhook)"
    by (simp add: demo_defs handler_defs)
  have 5: "\<not> isl (buildAlert env_002 no_ends_at_cfg demo_payload)"
    by (simp add: demo_defs handler_defs no_ends_at_cfg_def)
  have 6: "\<not> isl (buildAlert_archive env_archive no_ends_at_cfg demo_webhook)"
    by (simp add: demo_defs handler_defs no_ends_at_cfg_def)
  have add: "time_Add env_002 t time_Hour = t + 3600000000000"
    "time_Add env_archive t time_Hour = t + 3600000000000" for t
    by (simp_all add: demo_defs time_Hour_def)
  note hour = ends_at_is_start_plus_duration [of env_002 demo_cfg demo_payload
      "projr (buildAlert env_002 demo_cfg demo_payload)" env_archive demo_webhook
      "projr (buildAlert_archive env_archive demo_cfg demo_webhook)"]
  note none = ends_at_is_start_plus_duration [of env_002 no_ends_at_cfg demo_payload
      "projr (buildAlert env_002 no_ends_at_cfg demo_payload)" env_archive demo_webhook
      "projr (buildAlert_archive env_archive no_ends_at_cfg demo_webhook)"]
  have 7: "EndsAt (projr (buildAlert env_002 demo_cfg demo_payload)) =
     Some (time_Add env_002 (StartsAt (projr (buildAlert env_002 demo_cfg demo_payload))) time_Hour)"
    using hour 1 2 Inr_projr [OF 3] by blast
  have 8: "EndsAt (projr (buildAlert_archive env_archive demo_cfg demo_webhook)) =
     Some (time_Add env_archive (StartsAt (projr (buildAlert_archive env_archive demo_cfg demo_webhook))) time_Hour)"
    using hour 1 2 Inr_projr [OF 4] by blast
  have 9: "EndsAt (projr (buildAlert env_002 no_ends_at_cfg demo_payload)) = None"
    using none 1 Inr_projr [OF 5] by blast
  have 10: "EndsAt (projr (buildAlert_archive env_archive no_ends_at_cfg demo_webhook)) = None"
    using none 1 Inr_projr [OF 6] by blast
  show ?thesis
    using 1 2 3 4 5 6 7 8 9 10 by (simp add: add)
qed



text \<open>
  C7. The start time of the produced alert is claimed to be the wall-clock time at which
  the request is handled, and not to come from the payload. The handler of part 002 takes
  it from the result entry \<^verbatim>\<open>_time\<close>: here it is \<^verbatim>\<open>time.Unix(1700000000, 0)\<close>, which is not
  the reading of the clock.
\<close>

theorem start_time_counterexample:
  "\<not> isl (buildAlert env_002 demo_cfg demo_payload) \<and>
   StartsAt (projr (buildAlert env_002 demo_cfg demo_payload)) = time_Unix env_002 1700000000 0 \<and>
   StartsAt (projr (buildAlert env_002 demo_cfg demo_payload)) \<noteq> time_Now env_002"
  by (simp add: demo_defs handler_defs)

text \<open>
  C7, as the code has it. In the archived handler the start time of the produced alert is
  \<^verbatim>\<open>time.Now()\<close>, whatever the payload; in the handler of part 002 it is
  \<^verbatim>\<open>time.Unix(n, 0)\<close> for the integer \<open>n\<close> that \<^verbatim>\<open>strconv.ParseInt\<close> reads in the string
  of the result entry \<^verbatim>\<open>_time\<close>.
\<close>

theorem start_time_by_variant:
  fixes p :: "'a SplunkPayload_scheme" and q :: "'b SplunkWebhook_scheme"
  shows "(buildAlert_archive e' cfg q = Inr b \<longrightarrow> StartsAt b = time_Now e') \<and>
         (buildAlert e cfg p = Inr a \<longrightarrow>
            (\<exists>s n. map_of (Result p) ''_time'' = Some (JString s) \<and>
                   strconv_ParseInt e s 10 64 = Inr n \<and> StartsAt a = time_Unix e n 0))"
proof (intro conjI impI)
  assume "buildAlert_archive e' cfg q = Inr b"
  then show "StartsAt b = time_Now e'"
    by (auto dest!: buildAlert_archive_Inr)
next
  assume "buildAlert e cfg p = Inr a"
  then show "\<exists>s n. map_of (Result p) ''_time'' = Some (JString s) \<and>
                   strconv_ParseInt e s 10 64 = Inr n \<and> StartsAt a = time_Unix e n 0"
    by (auto dest!: buildAlert_Inr simp: triggerTime_def stringValue_Some_iff)
qed

theorem start_time_by_variant_witness:
  "\<not> isl (buildAlert_archive env_archive demo_cfg demo_webhook) \<and>
   StartsAt (projr (buildAlert_archive env_archive demo_cfg demo_webhook)) = time_Now env_archive \<and>
   \<not> isl (buildAlert env_002 demo_cfg demo_payload) \<and>
   (\<exists>s n. map_of (Result demo_payload) ''_time'' = Some (JString s) \<and>
          strconv_ParseInt env_002 s 10 64 = Inr n \<and>
          StartsAt (projr (buildAlert env_002 demo_cfg demo_payload)) = time_Unix env_002 n 0)"
proof -
  have 1: "\<not> isl (buildAlert_archive env_archive demo_cfg demo_webhook)"
    by (simp add: demo_defs handler_defs)
  have 2: "\<not> isl (buildAlert env_002 demo_cfg demo_payload)"
    by (simp add: demo_defs handler_defs)
  show ?thesis
    using start_time_by_variant [of env_archive demo_cfg demo_webhook
        "projr (buildAlert_archive env_archive demo_cfg demo_webhook)" env_002 demo_payload
        "projr (buildAlert env_002 demo_cfg demo_payload)"]
      1 2 Inr_projr [OF 1] Inr_projr [OF 2]
    by blast
qed

text \<open>
  C8. For every forwarded request (one for which the handler issued the POST), the handler
  answers the caller with 200 if and only if the destination returned 200; a transport
  failure gives 500; and any other status of the destination gives 500 with the body
  \<^verbatim>\<open>Error from Alertmanager: \<close> followed by the text of the destination's body. Both
  variants.
\<close>

theorem success_iff_destination_200:
  "((url, ct, payload) \<in> set (posts (HandleSplunkWebhook e cfg r)) \<longrightarrow>
      (\<forall>err. http_Post e url ct payload = Inl err \<longrightarrow>
         StatusCode (response (HandleSplunkWebhook e cfg r)) = 500) \<and>
      (\<forall>code rbody. http_Post e url ct payload = Inr (code, rbody) \<longrightarrow>
         (StatusCode (response (HandleSplunkWebhook e cfg r)) = 200 \<longleftrightarrow> code = 200) \<and>
         (code \<noteq> 200 \<longrightarrow>
            response (HandleSplunkWebhook e cfg r) =
              \<lparr>StatusCode = 500,
               ResponseBody = ''Error from Alertmanager: '' @ rbody @ newline\<rparr>))) \<and>
   ((url', ct', payload') \<in> set (posts (HandleSplunkWebhook_archive e' cfg r)) \<longrightarrow>
      (\<forall>err. http_Post e' url' ct' payload' = Inl err \<longrightarrow>
         StatusCode (response (HandleSplunkWebhook_archive e' cfg r)) = 500) \<and>
      (\<forall>code rbody. http_Post e' url' ct' payload' = Inr (code, rbody) \<longrightarrow>
         (StatusCode (response (HandleSplunkWebhook_archive e' cfg r)) = 200 \<longleftrightarrow> code = 200) \<and>
         (code \<noteq> 200 \<longrightarrow>
            response (HandleSplunkWebhook_archive e' cfg r) =
              \<lparr>StatusCode = 500,
               ResponseBody = ''Error from Alertmanager: '' @ rbody @ newline\<rparr>)))"
proof (intro conjI impI)
  assume h: "(url, ct, payload) \<in> set (posts (HandleSplunkWebhook e cfg r))"
  then obtain a where a: "HandleSplunkWebhook e cfg r = sendAlert e cfg a"
    using handler_posts by blast
  from h sendAlert_forwarded [of url ct payload e cfg a]
  show "\<forall>err. http_Post e url ct payload = Inl err \<longrightarrow>
         StatusCode (response (HandleSplunkWebhook e cfg r)) = 500"
    and "\<forall>code rbody. http_Post e url ct payload = Inr (code, rbody) \<longrightarrow>
         (StatusCode (response (HandleSplunkWebhook e cfg r)) = 200 \<longleftrightarrow> code = 200) \<and>
         (code \<noteq> 200 \<longrightarrow>
            response (HandleSplunkWebhook e cfg r) =
              \<lparr>StatusCode = 500,
               ResponseBody = ''Error from Alertmanager: '' @ rbody @ newline\<rparr>)"
    unfolding a by blast+
next
  assume h: "(url', ct', payload') \<in> set (posts (HandleSplunkWebhook_archive e' cfg r))"
  then obtain a where a: "HandleSplunkWebhook_archive e' cfg r = sendAlert e' cfg a"
    using handler_archive_posts by blast
  from h sendAlert_forwarded [of url' ct' payload' e' cfg a]
  show "\<forall>err. http_Post e' url' ct' payload' = Inl err \<longrightarrow>
         StatusCode (response (HandleSplunkWebhook_archive e' cfg r)) = 500"
    and "\<forall>code rbody. http_Post e' url' ct' payload' = Inr (code, rbody) \<longrightarrow>
         (StatusCode (response (HandleSplunkWebhook_archive e' cfg r)) = 200 \<longleftrightarrow> code = 200) \<and>
         (code \<noteq> 200 \<longrightarrow>
            response (HandleSplunkWebhook_archive e' cfg r) =
              \<lparr>StatusCode = 500,
               ResponseBody = ''Error from Alertmanager: '' @ rbody @ newline\<rparr>)"
    unfolding a by blast+
qed

theorem success_iff_destination_200_witness:
  "(demo_url, ''application/json'', demo_alert_json) \<in>
     set (posts (HandleSplunkWebhook env_002 demo_cfg demo_request)) \<and>
   http_Post env_002 demo_url ''application/json'' demo_alert_json = Inr (200, ''ok'') \<and>
   StatusCode (response (HandleSplunkWebhook env_002 demo_cfg demo_request)) = 200 \<and>
   (demo_url, ''application/json'', demo_alert_json) \<in>
     set (posts (HandleSplunkWebhook env_503 demo_cfg demo_request)) \<and>
   http_Post env_503 demo_url ''application/json'' demo_alert_json = Inr (503, ''busy'') \<and>
   response (HandleSplunkWebhook env_503 demo_cfg demo_request) =
     \<lparr>StatusCode = 500, ResponseBody = ''Error from Alertmanager: busy'' @ newline\<rparr> \<and>
   (demo_url, ''application/json'', demo_alert_json) \<in>
     set (posts (HandleSplunkWebhook_archive env_archive_503 demo_cfg demo_request)) \<and>
   http_Post env_archive_503 demo_url ''application/json'' demo_alert_json = Inr (503, ''busy'') \<and>
   response (HandleSplunkWebhook_archive env_archive_503 demo_cfg demo_request) =
     \<lparr>StatusCode = 500, ResponseBody = ''Error from Alertmanager: busy'' @ newline\<rparr>"
proof -
  have 1: "(demo_url, ''application/json'', demo_alert_json) \<in>
     set (posts (HandleSplunkWebhook env_002 demo_cfg demo_request))"
    by (simp add: wire_defs demo_defs handler_defs)
  have 2: "http_Post env_002 demo_url ''application/json'' demo_alert_json = Inr (200, ''ok'')"
    by (simp add: demo_defs)
  have 3: "(demo_url, ''application/json'', demo_alert_json) \<in>
     set (posts (HandleSplunkWebhook env_503 demo_cfg demo_request))"
    by (simp add: wire_defs demo_defs handler_defs)
  have 4: "http_Post env_503 demo_url ''application/json'' demo_alert_json = Inr (503, ''busy'')"
    by (simp add: env_503_def)
  have 5: "(demo_url, ''application/json'', demo_alert_json) \<in>
     set (posts (HandleSplunkWebhook_archive env_archive_503 demo_cfg demo_request))"
    by (simp add: wire_defs demo_defs handler_defs)
  have 6: "http_Post env_archive_503 demo_url ''application/json'' demo_alert_json =
     Inr (503, ''busy'')"
    by (simp add: env_archive_503_def)
  have ne: "(503::nat) \<noteq> 200"
    by simp
  have 7: "StatusCode (response (HandleSplunkWebhook env_002 demo_cfg demo_request)) = 200"
    using success_iff_destination_200 [of demo_url "''application/json''" demo_alert_json
        env_002 demo_cfg demo_request] 1 2 by blast
  have 8: "response (HandleSplunkWebhook env_503 demo_cfg demo_request) =
     \<lparr>StatusCode = 500, ResponseBody = ''Error from Alertmanager: '' @ ''busy'' @ newline\<rparr>"
    using success_iff_destination_200 [of demo_url "''application/json''" demo_alert_json
        env_503 demo_cfg demo_request] 3 4 ne by blast
  have 9: "response (HandleSplunkWebhook_archive env_archive_503 demo_cfg demo_request) =
     \<lparr>StatusCode = 500, ResponseBody = ''Error from Alertmanager: '' @ ''busy'' @ newline\<rparr>"
    using success_iff_destination_200 [of _ _ _ _ demo_cfg demo_request demo_url
        "''application/json''" demo_alert_json env_archive_503] 5 6 ne by blast
  show ?thesis
    using 1 2 3 4 5 6 7 8 9 by simp
qed

text \<open>
  C9. The labels of the produced alert are claimed to always hold a label for the search
  name and one for the application. The handler of part 002 injects none: for a payload
  with search name \<^verbatim>\<open>cpu\<close> and application \<^verbatim>\<open>search\<close> whose result holds the trigger time
  only, the label set of the alert is empty.
\<close>

theorem source_labels_counterexample:
  "SearchName time_only_payload = ''cpu'' \<and> App time_only_payload = ''search'' \<and>
   \<not> isl (buildAlert env_002 demo_cfg time_only_payload) \<and>
   dom (Labels (projr (buildAlert env_002 demo_cfg time_only_payload))) = {}"
  by (simp add: demo_defs handler_defs time_only_payload_def)

text \<open>
  C9, as the code has it. In the archived handler the labels of the produced alert map
  \<^verbatim>\<open>alertname\<close> to the search name and \<^verbatim>\<open>app\<close> to the application, whatever the result
  holds; in the handler of part 002 every label is a string entry of the result whose key
  is a default label or an additional label of the configuration.
\<close>

theorem source_labels_by_variant:
  fixes p :: "'a SplunkPayload_scheme" and q :: "'b SplunkWebhook_scheme"
  shows "(buildAlert_archive e' cfg q = Inr b \<longrightarrow>
            Labels b ''alertname'' = Some (SearchName q) \<and> Labels b ''app'' = Some (App q)) \<and>
         (buildAlert e cfg p = Inr a \<longrightarrow>
            (\<forall>k s. Labels a k = Some s \<longrightarrow>
               (k \<in> set defaultLabels \<or> k \<in> set (AdditionalLabels cfg)) \<and>
               map_of (Result p) k = Some (JString s)))"
proof (intro conjI impI allI)
  assume b: "buildAlert_archive e' cfg q = Inr b"
  show "Labels b ''alertname'' = Some (SearchName q)"
    by (simp add: Labels_buildAlert_archive [OF b])
  show "Labels b ''app'' = Some (App q)"
    by (simp add: Labels_buildAlert_archive [OF b])
next
  fix k s
  assume a: "buildAlert e cfg p = Inr a" and "Labels a k = Some s"
  then have l: "filterLabels cfg (Result p) k = Some s"
    by (simp add: Labels_buildAlert [OF a])
  then show "k \<in> set defaultLabels \<or> k \<in> set (AdditionalLabels cfg)"
    by (auto simp: filterLabels_lookup split: if_splits)
  from l show "map_of (Result p) k = Some (JString s)"
    by (auto simp: filterLabels_lookup stringValue_Some_iff split: if_splits)
qed

theorem source_labels_by_variant_witness:
  "\<not> isl (buildAlert_archive env_archive demo_cfg demo_webhook) \<and>
   Labels (projr (buildAlert_archive env_archive demo_cfg demo_webhook)) ''alertname'' =
     Some ''cpu'' \<and>
   Labels (projr (buildAlert_archive env_archive demo_cfg demo_webhook)) ''app'' =
     Some ''search'' \<and>
   \<not> isl (buildAlert env_002 demo_cfg demo_payload) \<and>
   Labels (projr (buildAlert env_002 demo_cfg demo_payload)) ''host'' = Some ''web1'' \<and>
   ''host'' \<in> set defaultLabels \<and>
   map_of (Result demo_payload) ''host'' = Some (JString ''web1'')"
proof -
  have 1: "\<not> isl (buildAlert_archive env_archive demo_cfg demo_webhook)"
    by (simp add: demo_defs handler_defs)
  have 2: "\<not> isl (buildAlert env_002 demo_cfg demo_payload)"
    by (simp add: demo_defs handler_defs)
  have 3: "Labels (projr (buildAlert env_002 demo_cfg demo_payload)) ''host'' = Some ''web1''"
    by (simp add: demo_defs handler_defs)
  have 4: "''host'' \<notin> set (AdditionalLabels demo_cfg)"
    by (simp add: demo_defs)
  have 5: "SearchName demo_webhook = ''cpu''" "App demo_webhook = ''search''"
    by (simp_all add: demo_defs)
  note inst = source_labels_by_variant [of env_archive demo_cfg demo_webhook
        "projr (buildAlert_archive env_archive demo_cfg demo_webhook)" env_002 demo_payload
        "projr (buildAlert env_002 demo_cfg demo_payload)"]
  have 6: "Labels (projr (buildAlert_archive env_archive demo_cfg demo_webhook)) ''alertname'' =
       Some (SearchName demo_webhook) \<and>
     Labels (projr (buildAlert_archive env_archive demo_cfg demo_webhook)) ''app'' =
       Some (App demo_webhook)"
    using inst Inr_projr [OF 1] by blast
  have 7: "''host'' \<in> set defaultLabels \<and>
     map_of (Result demo_payload) ''host'' = Some (JString ''web1'')"
    using inst Inr_projr [OF 2] 3 4 by blast
  show ?thesis
    using 1 2 3 5 6 7 by simp
qed




end
